theory Spec2Isabelle
  imports Complex_Main "HOL-Library.Char_ord" "HOL-Library.List_Lexorder" "HOL-Library.Multiset"
begin

section \<open>pyani graphics: heatmap rendering (pyani_graphics.py)\<close>

text \<open>
  The module draws a similarity matrix as a clustered heatmap with two back ends,
  \<open>heatmap_seaborn\<close> and \<open>heatmap_mpl\<close>. Python floats are modelled as
  real numbers (exact arithmetic, no NaN and no infinities), Python ints that count rows
  as \<open>nat\<close>, dictionaries as association lists in insertion order, and every
  exception the source can raise as a value of \<open>py_error\<close>.
\<close>

subsection \<open>Errors\<close>

datatype py_error = ValueError | KeyError | IndexError

subsection \<open>Figure size\<close>

text \<open>
  \<open>heatmap_seaborn\<close>, lines 73 to 78:
  \<^verbatim>\<open>maxfigsize = 120; calcfigsize = dfr.shape[0] * 1.1\<close>,
  \<^verbatim>\<open>figsize = min(max(8, calcfigsize), maxfigsize)\<close>, and when
  \<^verbatim>\<open>figsize == maxfigsize\<close> the font scale
  \<^verbatim>\<open>maxfigsize/calcfigsize\<close> is handed to \<^verbatim>\<open>sns.set_context\<close>.
\<close>

definition maxfigsize :: real where
  "maxfigsize = 120"

definition calcfigsize :: "nat \<Rightarrow> real" where
  "calcfigsize shape0 = real shape0 * 1.1"

definition seaborn_figsize :: "nat \<Rightarrow> real" where
  "seaborn_figsize shape0 = min (max 8 (calcfigsize shape0)) maxfigsize"

definition seaborn_font_scale :: "nat \<Rightarrow> real option" where
  "seaborn_font_scale shape0 =
     (if seaborn_figsize shape0 = maxfigsize
      then Some (maxfigsize / calcfigsize shape0) else None)"

text \<open>
  \<open>heatmap_mpl\<close>, line 167: \<^verbatim>\<open>figsize = max(8, dfsize * 0.175)\<close>.
\<close>

definition mpl_figsize :: "nat \<Rightarrow> real" where
  "mpl_figsize dfsize = max 8 (real dfsize * 0.175)"

subsection \<open>Data frames\<close>

text \<open>
  A pandas DataFrame: the row identifiers (\<^verbatim>\<open>dfr.index\<close>), the column
  identifiers and the values, row by row. \<^verbatim>\<open>dfr.shape[0]\<close> is the number of
  rows, \<^verbatim>\<open>dfr.values\<close> all the numbers, \<^verbatim>\<open>dfr.T\<close> the transpose.
\<close>

record dataframe =
  index :: "string list"
  columns :: "string list"
  vals :: "real list list"

definition shape0 :: "dataframe \<Rightarrow> nat" where
  "shape0 dfr = length (index dfr)"

definition dfr_T :: "dataframe \<Rightarrow> dataframe" where
  "dfr_T dfr = \<lparr>index = columns dfr, columns = index dfr, vals = transpose (vals dfr)\<rparr>"

text \<open>
  \<^verbatim>\<open>dfr.values.min()\<close> and \<^verbatim>\<open>dfr.values.max()\<close>: numpy raises ValueError
  on an array with no element.
\<close>

fun min_list_real :: "real \<Rightarrow> real list \<Rightarrow> real" where
  "min_list_real m [] = m"
| "min_list_real m (x # xs) = min_list_real (min m x) xs"

fun max_list_real :: "real \<Rightarrow> real list \<Rightarrow> real" where
  "max_list_real m [] = m"
| "max_list_real m (x # xs) = max_list_real (max m x) xs"

definition values_min :: "dataframe \<Rightarrow> py_error + real" where
  "values_min dfr =
     (case concat (vals dfr) of [] \<Rightarrow> Inl ValueError | x # xs \<Rightarrow> Inr (min_list_real x xs))"

definition values_max :: "dataframe \<Rightarrow> py_error + real" where
  "values_max dfr =
     (case concat (vals dfr) of [] \<Rightarrow> Inl ValueError | x # xs \<Rightarrow> Inr (max_list_real x xs))"

subsection \<open>Colour scale of \<open>heatmap_mpl\<close>\<close>

text \<open>
  Lines 151 to 154: \<^verbatim>\<open>if vmin is None: vmin = dfr.values.min()\<close> and the same for
  \<^verbatim>\<open>vmax\<close>. The result is the pair of bounds the rest of the function uses.
\<close>

definition effective_vmin :: "dataframe \<Rightarrow> real option \<Rightarrow> py_error + real" where
  "effective_vmin dfr vmin = (case vmin of None \<Rightarrow> values_min dfr | Some v \<Rightarrow> Inr v)"

definition effective_vmax :: "dataframe \<Rightarrow> real option \<Rightarrow> py_error + real" where
  "effective_vmax dfr vmax = (case vmax of None \<Rightarrow> values_max dfr | Some v \<Rightarrow> Inr v)"

text \<open>Line 156: \<^verbatim>\<open>vdiff = max(vmax - vmin, 0.01)\<close>.\<close>

definition vdiff :: "real \<Rightarrow> real \<Rightarrow> real" where
  "vdiff vmin vmax = max (vmax - vmin) 0.01"

text \<open>
  Line 157: \<^verbatim>\<open>cbticks = [vmin + e * vdiff for e in (0, 0.25, 0.5, 0.75, 1)]\<close>.
\<close>

definition quarter_points :: "real \<Rightarrow> real \<Rightarrow> real list" where
  "quarter_points vmin vmax = map (\<lambda>e. vmin + e * vdiff vmin vmax) [0, 0.25, 0.5, 0.75, 1]"

text \<open>
  \<^verbatim>\<open>math.log10\<close> raises ValueError outside the positive numbers;
  \<^verbatim>\<open>math.floor\<close> gives an int.
\<close>

definition py_log10 :: "real \<Rightarrow> py_error + real" where
  "py_log10 x = (if x \<le> 0 then Inl ValueError else Inr (log 10 x))"

text \<open>
  \<^verbatim>\<open>round(x, ndigits)\<close> on a float rounds to the nearest multiple of
  \<open>10\<close> to the power \<open>- ndigits\<close>, a tie going to the even multiple.
\<close>

definition round_half_even :: "real \<Rightarrow> int" where
  "round_half_even x =
     (let f = \<lfloor>x\<rfloor>; d = x - of_int f
      in if d < 1 / 2 then f else if 1 / 2 < d then f + 1
         else if even f then f else f + 1)"

definition py_round :: "real \<Rightarrow> int \<Rightarrow> real" where
  "py_round x ndigits =
     (if ndigits \<le> 0
      then of_int (round_half_even (x / 10 ^ nat (- ndigits))) * 10 ^ nat (- ndigits)
      else of_int (round_half_even (x * 10 ^ nat ndigits)) / 10 ^ nat ndigits)"

text \<open>\<^verbatim>\<open>int(x)\<close> on a float truncates towards zero.\<close>

definition py_int :: "real \<Rightarrow> int" where
  "py_int x = (if 0 \<le> x then \<lfloor>x\<rfloor> else \<lceil>x\<rceil>)"

text \<open>
  Lines 158 to 160: \<^verbatim>\<open>if vmax > 10: exponent = int(floor(log10(vmax))) - 1\<close> and
  \<^verbatim>\<open>cbticks = [int(round(e, -exponent)) for e in cbticks]\<close>.
\<close>

definition tick_exponent :: "real \<Rightarrow> py_error + int" where
  "tick_exponent vmax =
     (case py_log10 vmax of Inl err \<Rightarrow> Inl err | Inr l \<Rightarrow> Inr (\<lfloor>l\<rfloor> - 1))"

definition cbticks :: "real \<Rightarrow> real \<Rightarrow> py_error + real list" where
  "cbticks vmin vmax =
     (if 10 < vmax
      then (case tick_exponent vmax of
              Inl err \<Rightarrow> Inl err
            | Inr exponent \<Rightarrow>
                Inr (map (\<lambda>e. of_int (py_int (py_round e (- exponent))))
                         (quarter_points vmin vmax)))
      else Inr (quarter_points vmin vmax))"

subsection \<open>Dictionaries\<close>

text \<open>
  A Python dict is an association list with distinct keys, in insertion order:
  \<^verbatim>\<open>d[k] = v\<close> replaces the value of a key that is present, where it stands, and
  appends a new key at the end; \<^verbatim>\<open>d[k]\<close> raises KeyError on a missing key.
\<close>

type_synonym ('k, 'v) dict = "('k \<times> 'v) list"

definition dict_get :: "('k, 'v) dict \<Rightarrow> 'k \<Rightarrow> 'v option" where
  "dict_get d k = map_of d k"

fun dict_set :: "('k, 'v) dict \<Rightarrow> 'k \<Rightarrow> 'v \<Rightarrow> ('k, 'v) dict" where
  "dict_set [] k v = [(k, v)]"
| "dict_set ((k', v') # d) k v =
     (if k' = k then (k, v) # d else (k', v') # dict_set d k v)"

definition dict_values :: "('k, 'v) dict \<Rightarrow> 'v list" where
  "dict_values d = map snd d"

text \<open>A dict built from a sequence of pairs, as \<^verbatim>\<open>{k: v for (k, v) in pairs}\<close> does.\<close>

definition dict_of_pairs :: "('k \<times> 'v) list \<Rightarrow> ('k, 'v) dict" where
  "dict_of_pairs ps = foldl (\<lambda>d (k, v). dict_set d k v) [] ps"

subsection \<open>Tick labels\<close>

text \<open>
  \<open>heatmap_seaborn\<close>, lines 104 to 107:
  \<^verbatim>\<open>if labels is not None: newlabels = [labels.get(i, i) for i in dfr.index]\<close>,
  \<^verbatim>\<open>else: newlabels = [i for i in dfr.index]\<close>.
\<close>

definition labels_get :: "(string, string) dict \<Rightarrow> string \<Rightarrow> string" where
  "labels_get labels i = (case dict_get labels i of None \<Rightarrow> i | Some l \<Rightarrow> l)"

definition seaborn_newlabels :: "(string, string) dict option \<Rightarrow> string list \<Rightarrow> string list" where
  "seaborn_newlabels labels idx =
     (case labels of Some lab \<Rightarrow> map (labels_get lab) idx | None \<Rightarrow> map (\<lambda>i. i) idx)"

text \<open>
  \<open>heatmap_mpl\<close>, lines 259 to 264: the identifiers in leaf order, and
  \<^verbatim>\<open>if labels:\<close> (a dict that is given and not empty)
  \<^verbatim>\<open>[labels.get(lab, lab) for lab in rowticklabels]\<close>.
\<close>

definition mpl_ticklabels :: "(string, string) dict option \<Rightarrow> string list \<Rightarrow> string list" where
  "mpl_ticklabels labels ticklabels =
     (case labels of
        None \<Rightarrow> ticklabels
      | Some lab \<Rightarrow> if lab \<noteq> [] then map (labels_get lab) ticklabels else ticklabels)"

text \<open>
  The tick label of an identifier as the specification words it: the identifier itself
  when no label map is given or the map has no entry for it, the mapped string otherwise.
\<close>

definition spec_tick_label :: "(string, string) dict option \<Rightarrow> string \<Rightarrow> string" where
  "spec_tick_label labels ident =
     (case labels of
        None \<Rightarrow> ident
      | Some lab \<Rightarrow> (case dict_get lab ident of None \<Rightarrow> ident | Some l \<Rightarrow> l))"

subsection \<open>Libraries and configuration\<close>

text \<open>
  The clustering and the palette are computed by scipy and seaborn, which are not part
  of the repository: they are parameters of the model.
  \<open>dendrogram Z orientation\<close> stands for
  \<^verbatim>\<open>sch.dendrogram(Z, color_threshold=np.inf, orientation=...)['leaves']\<close> and
  \<open>cubehelix_palette n\<close> for
  \<^verbatim>\<open>sns.cubehelix_palette(n, light=.9, dark=.1, reverse=True, start=1, rot=-2)\<close>.
\<close>

type_synonym colour = "real \<times> real \<times> real"

record libs =
  pdist :: "real list list \<Rightarrow> real list"
  squareform :: "real list \<Rightarrow> real list list"
  linkage :: "real list list \<Rightarrow> string \<Rightarrow> real list list"
  dendrogram :: "real list list \<Rightarrow> string \<Rightarrow> nat list"
  cubehelix_palette :: "nat \<Rightarrow> colour list"

text \<open>
  The constants of \<^verbatim>\<open>pyani_config\<close> the module reads: the names of its three colour
  maps and of the colour map of the class strips.
\<close>

record pyani_config =
  CMAP_SPBND_BURD :: string
  CMAP_HADAMARD_BURD :: string
  CMAP_BURD :: string
  MPL_CBAR :: string

subsection \<open>Global state of the plotting libraries\<close>

text \<open>
  The registry of colour map names, the default colour map
  (\<^verbatim>\<open>plt.get_cmap(None)\<close>) and the font scale of the seaborn plotting context,
  which \<^verbatim>\<open>sns.set_context\<close> writes.
\<close>

record plot_globals =
  cmap_registry :: "string list"
  image_cmap :: string
  font_scale :: real



text \<open>\<^verbatim>\<open>plt.get_cmap(name)\<close> reads the registry and raises ValueError on an unknown name.\<close>

definition get_cmap :: "plot_globals \<Rightarrow> string option \<Rightarrow> py_error + string" where
  "get_cmap g cmap =
     (case cmap of
        None \<Rightarrow> Inr (image_cmap g)
      | Some c \<Rightarrow> if c \<in> set (cmap_registry g) then Inr c else Inl ValueError)"

definition set_context :: "plot_globals \<Rightarrow> real \<Rightarrow> plot_globals" where
  "set_context g scale = g\<lparr>font_scale := scale\<rparr>"

subsection \<open>Class colours of \<open>heatmap_seaborn\<close>\<close>

text \<open>
  Lines 88 to 94.
  \<^verbatim>\<open>levels = sorted(list(set(classes.values())))\<close>,
  \<^verbatim>\<open>pal = sns.cubehelix_palette(len(levels), ...)\<close>,
  \<^verbatim>\<open>paldict = {lvl: pal for (lvl, pal) in zip(levels, pal)}\<close>,
  \<^verbatim>\<open>lvl_pal = {cls: paldict[lvl] for (cls, lvl) in list(classes.items())}\<close>,
  \<^verbatim>\<open>col_cb = pd.Series(dfr.index).map(lvl_pal)\<close>: an identifier without an entry
  gets no colour (NaN in pandas, \<open>None\<close> here).
\<close>

definition levels :: "(string, string) dict \<Rightarrow> string list" where
  "levels classes = sorted_list_of_set (set (dict_values classes))"

definition paldict :: "libs \<Rightarrow> (string, string) dict \<Rightarrow> (string, colour) dict" where
  "paldict lib classes =
     dict_of_pairs (zip (levels classes) (cubehelix_palette lib (length (levels classes))))"

fun lvl_pal_pairs ::
  "(string, colour) dict \<Rightarrow> (string \<times> string) list \<Rightarrow> py_error + (string \<times> colour) list" where
  "lvl_pal_pairs pd [] = Inr []"
| "lvl_pal_pairs pd ((cls, lvl) # items) =
     (case dict_get pd lvl of
        None \<Rightarrow> Inl KeyError
      | Some c \<Rightarrow>
          (case lvl_pal_pairs pd items of
             Inl err \<Rightarrow> Inl err
           | Inr ps \<Rightarrow> Inr ((cls, c) # ps)))"

definition lvl_pal :: "libs \<Rightarrow> (string, string) dict \<Rightarrow> py_error + (string, colour) dict" where
  "lvl_pal lib classes =
     (case lvl_pal_pairs (paldict lib classes) classes of
        Inl err \<Rightarrow> Inl err
      | Inr ps \<Rightarrow> Inr (dict_of_pairs ps))"

definition seaborn_col_cb ::
  "libs \<Rightarrow> (string, string) dict option \<Rightarrow> string list \<Rightarrow> py_error + colour option list option" where
  "seaborn_col_cb lib classes idx =
     (case classes of
        None \<Rightarrow> Inr None
      | Some cl \<Rightarrow>
          (case lvl_pal lib cl of
             Inl err \<Rightarrow> Inl err
           | Inr lp \<Rightarrow> Inr (Some (map (dict_get lp) idx))))"

subsection \<open>Class strips of \<open>heatmap_mpl\<close>\<close>

text \<open>
  Positional selection with a list of integers, \<^verbatim>\<open>dfr.index[leaves]\<close> and
  \<^verbatim>\<open>dfr.ix[rows, cols]\<close>: IndexError on a position out of range.
\<close>

definition index_take :: "string list \<Rightarrow> nat list \<Rightarrow> py_error + string list" where
  "index_take idx leaves =
     (if list_all (\<lambda>i. i < length idx) leaves then Inr (map (\<lambda>i. idx ! i) leaves)
      else Inl IndexError)"

definition dfr_ix :: "dataframe \<Rightarrow> nat list \<Rightarrow> nat list \<Rightarrow> py_error + real list list" where
  "dfr_ix dfr rows cols =
     (if list_all (\<lambda>r. r < length (index dfr)) rows \<and>
         list_all (\<lambda>c. c < length (columns dfr)) cols
      then Inr (map (\<lambda>r. map (\<lambda>c. vals dfr ! r ! c) cols) rows)
      else Inl IndexError)"

text \<open>
  Lines 219 to 221: \<^verbatim>\<open>for name in dfr.index[coldend['leaves']]:\<close>
  \<^verbatim>\<open>if name not in classes: classes[name] = name\<close>. The dict is the caller's object.
\<close>

fun extend_classes :: "(string, string) dict \<Rightarrow> string list \<Rightarrow> (string, string) dict" where
  "extend_classes classes [] = classes"
| "extend_classes classes (name # names) =
     extend_classes
       (if dict_get classes name = None then dict_set classes name name else classes) names"

text \<open>
  Line 224: \<^verbatim>\<open>classdict = {cls: idx for (idx, cls) in enumerate(classes.values())}\<close>.
\<close>

definition classdict :: "(string, string) dict \<Rightarrow> (string, nat) dict" where
  "classdict classes =
     dict_of_pairs (map (\<lambda>(idx, cls). (cls, idx)) (enumerate 0 (dict_values classes)))"

text \<open>
  Lines 227 to 231 and 236 to 240:
  \<^verbatim>\<open>try: cblist.append(classdict[classes[name]])\<close>,
  \<^verbatim>\<open>except KeyError: cblist.append(classdict[name])\<close>; a KeyError of the handler
  itself is not caught.
\<close>

definition cb_handler :: "(string, nat) dict \<Rightarrow> string \<Rightarrow> py_error + nat" where
  "cb_handler cd name = (case dict_get cd name of None \<Rightarrow> Inl KeyError | Some i \<Rightarrow> Inr i)"

definition cb_entry :: "(string, string) dict \<Rightarrow> (string, nat) dict \<Rightarrow> string \<Rightarrow> py_error + nat" where
  "cb_entry classes cd name =
     (case dict_get classes name of
        None \<Rightarrow> cb_handler cd name
      | Some c \<Rightarrow> (case dict_get cd c of None \<Rightarrow> cb_handler cd name | Some i \<Rightarrow> Inr i))"

fun cblist :: "(string, string) dict \<Rightarrow> (string, nat) dict \<Rightarrow> string list \<Rightarrow> py_error + nat list" where
  "cblist classes cd [] = Inr []"
| "cblist classes cd (name # names) =
     (case cb_entry classes cd name of
        Inl err \<Rightarrow> Inl err
      | Inr v \<Rightarrow>
          (case cblist classes cd names of
             Inl err \<Rightarrow> Inl err
           | Inr vs \<Rightarrow> Inr (v # vs)))"

subsection \<open>The two rendering functions\<close>

text \<open>
  The objects the caller hands over by reference. A rendering call returns them as they
  are when the call ends, next to the figure and the global state.
\<close>

record call_args =
  arg_dfr :: dataframe
  arg_labels :: "(string, string) dict option"
  arg_classes :: "(string, string) dict option"

definition bind_err :: "py_error + 'a \<Rightarrow> ('a \<Rightarrow> py_error + 'b) \<Rightarrow> py_error + 'b" where
  "bind_err m f = (case m of Inl err \<Rightarrow> Inl err | Inr x \<Rightarrow> f x)"

text \<open>\<^verbatim>\<open>if outfilename:\<close> and \<^verbatim>\<open>if title:\<close>: given and not the empty string.\<close>

definition truthy :: "string option \<Rightarrow> string option" where
  "truthy s = (case s of None \<Rightarrow> None | Some t \<Rightarrow> if t \<noteq> [] then Some t else None)"

text \<open>What \<open>heatmap_seaborn\<close> hands to \<^verbatim>\<open>sns.clustermap\<close> and to the figure.\<close>

record seaborn_figure =
  sb_data :: dataframe
  sb_cmap :: string
  sb_vmin :: "real option"
  sb_vmax :: "real option"
  sb_col_colors :: "colour option list option"
  sb_row_colors :: "colour option list option"
  sb_figsize :: "real \<times> real"
  sb_xticklabels :: "string list"
  sb_yticklabels :: "string list"
  sb_ylabel :: "string option"
  sb_saved :: "string option"

definition heatmap_seaborn ::
  "libs \<Rightarrow> plot_globals \<Rightarrow> call_args \<Rightarrow> string option \<Rightarrow> string option \<Rightarrow> string option \<Rightarrow>
   real option \<Rightarrow> real option \<Rightarrow> py_error + (seaborn_figure \<times> plot_globals \<times> call_args)" where
  "heatmap_seaborn lib g args outfilename title cmap vmin vmax =
     (let dfr = arg_dfr args in
      bind_err (get_cmap g cmap) (\<lambda>cm.
      let figsize = seaborn_figsize (shape0 dfr);
          g' = (case seaborn_font_scale (shape0 dfr) of
                  Some scale \<Rightarrow> set_context g scale | None \<Rightarrow> g) in
      bind_err (seaborn_col_cb lib (arg_classes args) (index dfr)) (\<lambda>col_cb.
      let newlabels = seaborn_newlabels (arg_labels args) (index dfr) in
      Inr (\<lparr>sb_data = dfr, sb_cmap = cm, sb_vmin = vmin, sb_vmax = vmax,
             sb_col_colors = col_cb, sb_row_colors = col_cb,
             sb_figsize = (figsize, figsize),
             sb_xticklabels = newlabels, sb_yticklabels = newlabels,
             sb_ylabel = title, sb_saved = truthy outfilename\<rparr>,
           g', args))))"

text \<open>What \<open>heatmap_mpl\<close> draws.\<close>

record mpl_figure =
  fig_figsize :: "real \<times> real"
  heatmap_data :: "real list list"
  im_cmap :: string
  im_vmin :: real
  im_vmax :: real
  col_cb :: "nat list option"
  row_cb :: "nat list option"
  cb_cmap :: "string option"
  xticklabels :: "string list"
  yticklabels :: "string list"
  cbar_ticks :: "real list"
  cbar_label :: "string option"
  fig_saved :: "string option"

text \<open>
  Lines 176, 177, 185 and 189, 190, 198:
  \<^verbatim>\<open>coldists = distance.squareform(distance.pdist(dfr.T))\<close>,
  \<^verbatim>\<open>colclusters = sch.linkage(coldists, method='complete')\<close>,
  \<^verbatim>\<open>coldend = sch.dendrogram(colclusters, color_threshold=np.inf)\<close>, and the same on
  \<^verbatim>\<open>dfr\<close> with \<^verbatim>\<open>orientation="left"\<close> for the rows.
\<close>

definition col_leaves :: "libs \<Rightarrow> dataframe \<Rightarrow> nat list" where
  "col_leaves lib dfr =
     dendrogram lib
       (linkage lib (squareform lib (pdist lib (vals (dfr_T dfr)))) ''complete'') ''top''"

definition row_leaves :: "libs \<Rightarrow> dataframe \<Rightarrow> nat list" where
  "row_leaves lib dfr =
     dendrogram lib
       (linkage lib (squareform lib (pdist lib (vals dfr))) ''complete'') ''left''"

text \<open>
  Lines 217 to 256: the class strips, with the class map as the loop leaves it.
\<close>

definition mpl_class_strips ::
  "pyani_config \<Rightarrow> plot_globals \<Rightarrow> dataframe \<Rightarrow> nat list \<Rightarrow> nat list \<Rightarrow>
   (string, string) dict option \<Rightarrow>
   py_error + (nat list option \<times> nat list option \<times> string option \<times> (string, string) dict option)" where
  "mpl_class_strips cfg g dfr rowl coll classes =
     (case classes of
        None \<Rightarrow> Inr (None, None, None, None)
      | Some cl \<Rightarrow>
          bind_err (index_take (index dfr) coll) (\<lambda>colnames.
          let cl' = extend_classes cl colnames;
              cd = classdict cl' in
          bind_err (cblist cl' cd colnames) (\<lambda>col_cblist.
          bind_err (index_take (index dfr) rowl) (\<lambda>rownames.
          bind_err (cblist cl' cd rownames) (\<lambda>row_cblist.
          bind_err (get_cmap g (Some (MPL_CBAR cfg))) (\<lambda>cbm.
          Inr (Some col_cblist, Some row_cblist, Some cbm, Some cl')))))))"

definition heatmap_mpl ::
  "libs \<Rightarrow> pyani_config \<Rightarrow> plot_globals \<Rightarrow> call_args \<Rightarrow> string option \<Rightarrow> string option \<Rightarrow>
   string option \<Rightarrow> real option \<Rightarrow> real option \<Rightarrow>
   py_error + (mpl_figure \<times> plot_globals \<times> call_args)" where
  "heatmap_mpl lib cfg g args outfilename title cmap vmin vmax =
     (let dfr = arg_dfr args; dfsize = shape0 dfr in
      bind_err (effective_vmin dfr vmin) (\<lambda>vmin'.
      bind_err (effective_vmax dfr vmax) (\<lambda>vmax'.
      bind_err (cbticks vmin' vmax') (\<lambda>ticks.
      bind_err (get_cmap g cmap) (\<lambda>cm.
      let figsize = mpl_figsize dfsize;
          coll = col_leaves lib dfr;
          rowl = row_leaves lib dfr in
      bind_err (dfr_ix dfr rowl coll) (\<lambda>shown.
      bind_err (mpl_class_strips cfg g dfr rowl coll (arg_classes args))
        (\<lambda>(colcb, rowcb, cbm, classes').
      bind_err (index_take (index dfr) rowl) (\<lambda>rowticklabels.
      bind_err (index_take (index dfr) coll) (\<lambda>colticklabels.
      Inr (\<lparr>fig_figsize = (figsize, figsize), heatmap_data = shown,
             im_cmap = cm, im_vmin = vmin', im_vmax = vmax',
             col_cb = colcb, row_cb = rowcb, cb_cmap = cbm,
             xticklabels = mpl_ticklabels (arg_labels args) colticklabels,
             yticklabels = mpl_ticklabels (arg_labels args) rowticklabels,
             cbar_ticks = ticks, cbar_label = truthy title,
             fig_saved = truthy outfilename\<rparr>,
           g,
           (case classes' of None \<Rightarrow> args | Some cl' \<Rightarrow> args\<lparr>arg_classes := Some cl'\<rparr>)))))))))))"

subsection \<open>Example inputs\<close>

text \<open>
  A library instance with fixed leaf orders for a matrix of two rows, a configuration, a
  global state and three calls' arguments: a matrix of two genomes with a label and a class
  for the first only, the same with a class for both, and a matrix of 110 genomes.
\<close>

definition ex_lib :: libs where
  "ex_lib = \<lparr>pdist = (\<lambda>m. []), squareform = (\<lambda>d. []), linkage = (\<lambda>m method. []),
              dendrogram = (\<lambda>z orientation. if orientation = ''left'' then [1, 0] else [0, 1]),
              cubehelix_palette = (\<lambda>n. map (\<lambda>i. (real i, 0, 0)) [0..<n])\<rparr>"

definition ex_cfg :: pyani_config where
  "ex_cfg = \<lparr>CMAP_SPBND_BURD = ''spbnd_BuRd'', CMAP_HADAMARD_BURD = ''hadamard_BuRd'',
              CMAP_BURD = ''BuRd'', MPL_CBAR = ''Spectral''\<rparr>"

definition ex_globals :: plot_globals where
  "ex_globals = \<lparr>cmap_registry = [''viridis'', ''Spectral''], image_cmap = ''viridis'',
                  font_scale = 1\<rparr>"

definition ex_dfr :: dataframe where
  "ex_dfr = \<lparr>index = [''A'', ''B''], columns = [''A'', ''B''], vals = [[1, 0.5], [0.5, 1]]\<rparr>"

definition ex_args :: call_args where
  "ex_args = \<lparr>arg_dfr = ex_dfr, arg_labels = Some [(''A'', ''Alpha'')],
               arg_classes = Some [(''A'', ''x'')]\<rparr>"

definition ex_args_full :: call_args where
  "ex_args_full = \<lparr>arg_dfr = ex_dfr, arg_labels = None,
                    arg_classes = Some [(''A'', ''y''), (''B'', ''x'')]\<rparr>"

definition big_dfr :: dataframe where
  "big_dfr = \<lparr>index = replicate 110 ''g'', columns = replicate 110 ''g'',
               vals = replicate 110 (replicate 110 1)\<rparr>"

definition big_args :: call_args where
  "big_args = \<lparr>arg_dfr = big_dfr, arg_labels = None, arg_classes = None\<rparr>"

text \<open>The figures and final class map of the calls on these inputs.\<close>

definition ex_mpl_fig :: mpl_figure where
  "ex_mpl_fig =
     \<lparr>fig_figsize = (8, 8), heatmap_data = [[0.5, 1], [1, 0.5]],
      im_cmap = ''viridis'', im_vmin = 0.5, im_vmax = 1,
      col_cb = Some [0, 1], row_cb = Some [1, 0], cb_cmap = Some ''Spectral'',
      xticklabels = [''Alpha'', ''B''], yticklabels = [''B'', ''Alpha''],
      cbar_ticks = [0.5, 0.625, 0.75, 0.875, 1], cbar_label = None, fig_saved = None\<rparr>"

definition ex_args_after :: call_args where
  "ex_args_after = ex_args\<lparr>arg_classes := Some [(''A'', ''x''), (''B'', ''B'')]\<rparr>"

definition ex_seaborn_fig :: seaborn_figure where
  "ex_seaborn_fig =
     \<lparr>sb_data = ex_dfr, sb_cmap = ''viridis'', sb_vmin = None, sb_vmax = None,
      sb_col_colors = Some [Some (0, 0, 0), None],
      sb_row_colors = Some [Some (0, 0, 0), None], sb_figsize = (8, 8),
      sb_xticklabels = [''Alpha'', ''B''], sb_yticklabels = [''Alpha'', ''B''],
      sb_ylabel = None, sb_saved = None\<rparr>"

definition big_seaborn_fig :: seaborn_figure where
  "big_seaborn_fig =
     \<lparr>sb_data = big_dfr, sb_cmap = ''viridis'', sb_vmin = None, sb_vmax = None,
      sb_col_colors = None, sb_row_colors = None, sb_figsize = (120, 120),
      sb_xticklabels = replicate 110 ''g'', sb_yticklabels = replicate 110 ''g'',
      sb_ylabel = None, sb_saved = None\<rparr>"

section \<open>Properties\<close>

subsection \<open>What a call that returns has computed\<close>

lemma bind_err_Inr: "bind_err m f = Inr y \<longleftrightarrow> (\<exists>x. m = Inr x \<and> f x = Inr y)"
  by (cases m) (simp_all add: bind_err_def)

lemma heatmap_seaborn_Inr:
  assumes "heatmap_seaborn lib g args outfilename title cmap vmin vmax = Inr (fig, g', args')"
  shows "\<exists>cm cb. get_cmap g cmap = Inr cm \<and>
           seaborn_col_cb lib (arg_classes args) (index (arg_dfr args)) = Inr cb \<and>
           fig = \<lparr>sb_data = arg_dfr args, sb_cmap = cm, sb_vmin = vmin, sb_vmax = vmax,
                   sb_col_colors = cb, sb_row_colors = cb,
                   sb_figsize = (seaborn_figsize (shape0 (arg_dfr args)),
                                 seaborn_figsize (shape0 (arg_dfr args))),
                   sb_xticklabels = seaborn_newlabels (arg_labels args) (index (arg_dfr args)),
                   sb_yticklabels = seaborn_newlabels (arg_labels args) (index (arg_dfr args)),
                   sb_ylabel = title, sb_saved = truthy outfilename\<rparr> \<and>
           g' = (case seaborn_font_scale (shape0 (arg_dfr args)) of
                   Some scale \<Rightarrow> set_context g scale | None \<Rightarrow> g) \<and>
           args' = args"
  using assms unfolding heatmap_seaborn_def Let_def bind_err_Inr by auto

lemma heatmap_mpl_Inr:
  assumes "heatmap_mpl lib cfg g args outfilename title cmap vmin vmax = Inr (fig, g', args')"
  shows "\<exists>vmin' vmax' ticks cm shown colcb rowcb cbm classes' rowt colt.
           effective_vmin (arg_dfr args) vmin = Inr vmin' \<and>
           effective_vmax (arg_dfr args) vmax = Inr vmax' \<and>
           cbticks vmin' vmax' = Inr ticks \<and>
           get_cmap g cmap = Inr cm \<and>
           dfr_ix (arg_dfr args) (row_leaves lib (arg_dfr args))
             (col_leaves lib (arg_dfr args)) = Inr shown \<and>
           mpl_class_strips cfg g (arg_dfr args) (row_leaves lib (arg_dfr args))
             (col_leaves lib (arg_dfr args)) (arg_classes args) =
             Inr (colcb, rowcb, cbm, classes') \<and>
           index_take (index (arg_dfr args)) (row_leaves lib (arg_dfr args)) = Inr rowt \<and>
           index_take (index (arg_dfr args)) (col_leaves lib (arg_dfr args)) = Inr colt \<and>
           fig = \<lparr>fig_figsize = (mpl_figsize (shape0 (arg_dfr args)),
                                  mpl_figsize (shape0 (arg_dfr args))),
                   heatmap_data = shown, im_cmap = cm, im_vmin = vmin', im_vmax = vmax',
                   col_cb = colcb, row_cb = rowcb, cb_cmap = cbm,
                   xticklabels = mpl_ticklabels (arg_labels args) colt,
                   yticklabels = mpl_ticklabels (arg_labels args) rowt,
                   cbar_ticks = ticks, cbar_label = truthy title,
                   fig_saved = truthy outfilename\<rparr> \<and>
           g' = g \<and>
           args' = (case classes' of None \<Rightarrow> args | Some cl' \<Rightarrow> args\<lparr>arg_classes := Some cl'\<rparr>)"
  using assms
  by (auto simp: heatmap_mpl_def Let_def bind_err_Inr split: prod.splits)

subsection \<open>The example calls\<close>

lemma ex_leaves: "row_leaves ex_lib d = [1, 0]" "col_leaves ex_lib d = [0, 1]"
  by (simp_all add: row_leaves_def col_leaves_def ex_lib_def)

lemma ex_mpl_call:
  "heatmap_mpl ex_lib ex_cfg ex_globals ex_args None None None None None =
   Inr (ex_mpl_fig, ex_globals, ex_args_after)"
  by (simp add: heatmap_mpl_def ex_leaves ex_args_def ex_dfr_def ex_globals_def ex_cfg_def
      shape0_def effective_vmin_def effective_vmax_def values_min_def values_max_def
      cbticks_def quarter_points_def vdiff_def get_cmap_def mpl_figsize_def dfr_ix_def
      mpl_class_strips_def index_take_def classdict_def dict_of_pairs_def dict_values_def
      dict_get_def cb_entry_def cb_handler_def mpl_ticklabels_def labels_get_def truthy_def
      bind_err_def enumerate_eq_zip ex_mpl_fig_def ex_args_after_def)

lemma big_seaborn_call:
  "heatmap_seaborn ex_lib ex_globals big_args None None None None None =
   Inr (big_seaborn_fig, ex_globals\<lparr>font_scale := 120 / 121\<rparr>, big_args)"
  by (simp add: Let_def heatmap_seaborn_def big_args_def big_dfr_def ex_globals_def shape0_def
      get_cmap_def seaborn_figsize_def seaborn_font_scale_def calcfigsize_def maxfigsize_def
      seaborn_col_cb_def seaborn_newlabels_def truthy_def bind_err_def set_context_def
      big_seaborn_fig_def)

lemma ex_seaborn_call:
  "heatmap_seaborn ex_lib ex_globals ex_args None None None None None =
   Inr (ex_seaborn_fig, ex_globals, ex_args)"
  by (simp add: Let_def heatmap_seaborn_def ex_args_def ex_dfr_def ex_globals_def shape0_def
      get_cmap_def seaborn_figsize_def seaborn_font_scale_def calcfigsize_def maxfigsize_def
      seaborn_col_cb_def seaborn_newlabels_def truthy_def bind_err_def set_context_def
      lvl_pal_def paldict_def levels_def dict_values_def dict_of_pairs_def dict_get_def
      labels_get_def ex_lib_def ex_seaborn_fig_def)

subsection \<open>Figure size\<close>

lemma calcfigsize_neq_max: "calcfigsize n \<noteq> maxfigsize"
proof
  assume "calcfigsize n = maxfigsize"
  then have "real n * 11 = 1200" by (simp add: calcfigsize_def maxfigsize_def)
  then have "real (n * 11) = real 1200" by simp
  then have "n * 11 = 1200" by (simp only: of_nat_eq_iff)
  then show False by presburger
qed

lemma seaborn_figsize_range: "8 \<le> seaborn_figsize n \<and> seaborn_figsize n \<le> maxfigsize"
  by (simp add: seaborn_figsize_def maxfigsize_def)

lemma seaborn_scale_reduced:
  assumes "seaborn_figsize n = maxfigsize"
  shows "0 < maxfigsize / calcfigsize n \<and> maxfigsize / calcfigsize n < 1"
proof -
  have "maxfigsize \<le> calcfigsize n"
    using assms by (simp add: seaborn_figsize_def maxfigsize_def min_def max_def split: if_splits)
  with calcfigsize_neq_max [of n] have "maxfigsize < calcfigsize n" by simp
  then show ?thesis by (simp add: maxfigsize_def)
qed

lemma mpl_figsize_unbounded: "\<exists>n. B < mpl_figsize n"
proof -
  obtain n :: nat where n: "B / 0.175 < real n" using reals_Archimedean2 by blast
  then have "B < real n * 0.175" by (simp add: field_simps)
  then have "B < mpl_figsize n" by (simp add: mpl_figsize_def)
  then show ?thesis ..
qed

text \<open>
  C1, as amended. A call of \<open>heatmap_seaborn\<close> that returns has drawn a square figure
  of size \<open>min (max 8 (1.1 * rows)) 120\<close>, which lies between 8 and \<open>maxfigsize\<close>
  (120); when the size is the maximum, the global font scale it leaves is
  \<open>maxfigsize / calcfigsize\<close>, strictly between 0 and 1, and otherwise it leaves the
  global state as it found it.
  A call of \<open>heatmap_mpl\<close> that returns has drawn a square figure of size
  \<open>max 8 (0.175 * rows)\<close>, which is at least 8, and leaves the global state, so the
  font scale, as it found it. That size has no upper bound: it exceeds any \<open>B\<close> for
  some number of rows.
\<close>

theorem figsize_bounds:
  "(heatmap_seaborn lib g args outfilename title cmap vmin vmax = Inr (fig, g', args') \<longrightarrow>
      fst (sb_figsize fig) = snd (sb_figsize fig) \<and>
      fst (sb_figsize fig) = min (max 8 (real (shape0 (arg_dfr args)) * 1.1)) 120 \<and>
      8 \<le> fst (sb_figsize fig) \<and> fst (sb_figsize fig) \<le> maxfigsize \<and>
      (fst (sb_figsize fig) = maxfigsize \<longrightarrow>
         font_scale g' = maxfigsize / calcfigsize (shape0 (arg_dfr args)) \<and>
         0 < font_scale g' \<and> font_scale g' < 1) \<and>
      (fst (sb_figsize fig) \<noteq> maxfigsize \<longrightarrow> g' = g)) \<and>
   (heatmap_mpl lib cfg g2 args2 outfilename2 title2 cmap2 vmin2 vmax2 = Inr (fig2, g2', args2') \<longrightarrow>
      fst (fig_figsize fig2) = snd (fig_figsize fig2) \<and>
      fst (fig_figsize fig2) = max 8 (real (shape0 (arg_dfr args2)) * 0.175) \<and>
      8 \<le> fst (fig_figsize fig2) \<and>
      g2' = g2 \<and> font_scale g2' = font_scale g2) \<and>
   (\<exists>n. B < mpl_figsize n)"
proof (intro conjI impI)
  assume call: "heatmap_seaborn lib g args outfilename title cmap vmin vmax = Inr (fig, g', args')"
  let ?n = "shape0 (arg_dfr args)"
  from heatmap_seaborn_Inr [OF call]
  have fs: "sb_figsize fig = (seaborn_figsize ?n, seaborn_figsize ?n)"
    and g': "g' = (case seaborn_font_scale ?n of Some scale \<Rightarrow> set_context g scale | None \<Rightarrow> g)"
    by auto
  show "fst (sb_figsize fig) = snd (sb_figsize fig)" by (simp add: fs)
  show "fst (sb_figsize fig) = min (max 8 (real ?n * 1.1)) 120"
    by (simp add: fs seaborn_figsize_def calcfigsize_def maxfigsize_def)
  show "8 \<le> fst (sb_figsize fig)" using seaborn_figsize_range [of ?n] by (simp add: fs)
  show "fst (sb_figsize fig) \<le> maxfigsize" using seaborn_figsize_range [of ?n] by (simp add: fs)
  {
    assume "fst (sb_figsize fig) = maxfigsize"
    then have hit: "seaborn_figsize ?n = maxfigsize" by (simp add: fs)
    then have sc: "font_scale g' = maxfigsize / calcfigsize ?n"
      by (simp add: g' seaborn_font_scale_def set_context_def)
    show "font_scale g' = maxfigsize / calcfigsize ?n" by (rule sc)
    show "0 < font_scale g'" using seaborn_scale_reduced [OF hit] by (simp add: sc)
    show "font_scale g' < 1" using seaborn_scale_reduced [OF hit] by (simp add: sc)
  }
  {
    assume "fst (sb_figsize fig) \<noteq> maxfigsize"
    then have "seaborn_figsize ?n \<noteq> maxfigsize" by (simp add: fs)
    then show "g' = g" by (simp add: g' seaborn_font_scale_def)
  }
next
  assume call: "heatmap_mpl lib cfg g2 args2 outfilename2 title2 cmap2 vmin2 vmax2 = Inr (fig2, g2', args2')"
  let ?n = "shape0 (arg_dfr args2)"
  from heatmap_mpl_Inr [OF call]
  have fs: "fig_figsize fig2 = (mpl_figsize ?n, mpl_figsize ?n)" and same: "g2' = g2" by auto
  show "fst (fig_figsize fig2) = snd (fig_figsize fig2)" by (simp add: fs)
  show "fst (fig_figsize fig2) = max 8 (real ?n * 0.175)" by (simp add: fs mpl_figsize_def)
  show "8 \<le> fst (fig_figsize fig2)" by (simp add: fs mpl_figsize_def)
  show "g2' = g2" by (rule same)
  show "font_scale g2' = font_scale g2" by (simp add: same)
next
  show "\<exists>n. B < mpl_figsize n" by (rule mpl_figsize_unbounded)
qed

theorem figsize_bounds_witness:
  "heatmap_seaborn ex_lib ex_globals big_args None None None None None =
     Inr (big_seaborn_fig, ex_globals\<lparr>font_scale := 120 / 121\<rparr>, big_args) \<and>
   heatmap_mpl ex_lib ex_cfg ex_globals ex_args None None None None None =
     Inr (ex_mpl_fig, ex_globals, ex_args_after) \<and>
   heatmap_seaborn ex_lib ex_globals ex_args None None None None None =
     Inr (ex_seaborn_fig, ex_globals, ex_args) \<and>
   fst (sb_figsize big_seaborn_fig) = maxfigsize \<and>
   font_scale (ex_globals\<lparr>font_scale := 120 / 121\<rparr>) < 1 \<and>
   fst (sb_figsize ex_seaborn_fig) \<noteq> maxfigsize \<and>
   fst (sb_figsize ex_seaborn_fig) = min (max 8 (real (shape0 (arg_dfr ex_args)) * 1.1)) 120 \<and>
   8 \<le> fst (fig_figsize ex_mpl_fig) \<and>
   (\<exists>n. 1000 < mpl_figsize n)"
proof -
  note sb = big_seaborn_call and mp = ex_mpl_call and sm = ex_seaborn_call
  have hit: "fst (sb_figsize big_seaborn_fig) = maxfigsize"
    by (simp add: big_seaborn_fig_def maxfigsize_def)
  have small: "fst (sb_figsize ex_seaborn_fig) \<noteq> maxfigsize"
    by (simp add: ex_seaborn_fig_def maxfigsize_def)
  from figsize_bounds [THEN conjunct1, rule_format, OF sb] hit
  have "font_scale (ex_globals\<lparr>font_scale := 120 / 121\<rparr>) < 1" by blast
  moreover from figsize_bounds [THEN conjunct1, rule_format, OF sm]
  have "fst (sb_figsize ex_seaborn_fig) =
      min (max 8 (real (shape0 (arg_dfr ex_args)) * 1.1)) 120" by blast
  moreover from figsize_bounds [THEN conjunct2, THEN conjunct1, rule_format, OF mp]
  have "8 \<le> fst (fig_figsize ex_mpl_fig)" by blast
  moreover have "\<exists>n. 1000 < mpl_figsize n"
    by (rule figsize_bounds [where B = 1000, THEN conjunct2, THEN conjunct2])
  ultimately show ?thesis using sb mp sm hit small by blast
qed

text \<open>
  C1 as stated fails for \<open>heatmap_mpl\<close>: a matrix of 1000 rows gets a figure of size
  175, above the maximum of 120 that \<open>heatmap_seaborn\<close> enforces.
\<close>

theorem mpl_figsize_exceeds_maxfigsize:
  "mpl_figsize 1000 = 175 \<and> \<not> mpl_figsize 1000 \<le> maxfigsize"
  by (simp add: mpl_figsize_def maxfigsize_def)

subsection \<open>Default bounds of the colour scale\<close>

lemma min_list_real_Min: "min_list_real m xs = Min (insert m (set xs))"
proof (induction xs arbitrary: m)
  case Nil
  show ?case by simp
next
  case (Cons y ys)
  have "Min (insert (min m y) (set ys)) = Min (insert m (insert y (set ys)))"
  proof (cases "ys = []")
    case True
    then show ?thesis by (simp add: min.commute)
  next
    case False
    then have ne: "set ys \<noteq> {}" by simp
    show ?thesis by (simp add: Min_insert [OF _ ne] min.assoc)
  qed
  with Cons show ?case by simp
qed

lemma max_list_real_Max: "max_list_real m xs = Max (insert m (set xs))"
proof (induction xs arbitrary: m)
  case Nil
  show ?case by simp
next
  case (Cons y ys)
  have "Max (insert (max m y) (set ys)) = Max (insert m (insert y (set ys)))"
  proof (cases "ys = []")
    case True
    then show ?thesis by (simp add: max.commute)
  next
    case False
    then have ne: "set ys \<noteq> {}" by simp
    show ?thesis by (simp add: Max_insert [OF _ ne] max.assoc)
  qed
  with Cons show ?case by simp
qed

lemma values_min_Min:
  "concat (vals dfr) \<noteq> [] \<Longrightarrow> values_min dfr = Inr (Min (set (concat (vals dfr))))"
  by (cases "concat (vals dfr)") (simp_all add: values_min_def min_list_real_Min)

lemma values_max_Max:
  "concat (vals dfr) \<noteq> [] \<Longrightarrow> values_max dfr = Inr (Max (set (concat (vals dfr))))"
  by (cases "concat (vals dfr)") (simp_all add: values_max_def max_list_real_Max)

text \<open>
  C10. In \<open>heatmap_mpl\<close> a bound the caller supplies is used unchanged, and a bound
  that is not supplied is the least (respectively greatest) of all values of the matrix,
  for a matrix that has a value; the bounds found this way are the ones the heatmap is
  drawn with.
\<close>

theorem default_colour_scale_bounds:
  "effective_vmin dfr (Some lo) = Inr lo \<and> effective_vmax dfr (Some hi) = Inr hi \<and>
   (concat (vals dfr) \<noteq> [] \<longrightarrow>
      effective_vmin dfr None = Inr (Min (set (concat (vals dfr)))) \<and>
      effective_vmax dfr None = Inr (Max (set (concat (vals dfr))))) \<and>
   (heatmap_mpl lib cfg g args outfilename title cmap vmin vmax = Inr (fig, g', args') \<longrightarrow>
      effective_vmin (arg_dfr args) vmin = Inr (im_vmin fig) \<and>
      effective_vmax (arg_dfr args) vmax = Inr (im_vmax fig))"
proof (intro conjI impI)
  show "effective_vmin dfr (Some lo) = Inr lo" by (simp add: effective_vmin_def)
  show "effective_vmax dfr (Some hi) = Inr hi" by (simp add: effective_vmax_def)
next
  assume "concat (vals dfr) \<noteq> []"
  then show "effective_vmin dfr None = Inr (Min (set (concat (vals dfr))))"
    and "effective_vmax dfr None = Inr (Max (set (concat (vals dfr))))"
    by (simp_all add: effective_vmin_def effective_vmax_def values_min_Min values_max_Max)
next
  assume call: "heatmap_mpl lib cfg g args outfilename title cmap vmin vmax = Inr (fig, g', args')"
  from heatmap_mpl_Inr [OF call]
  show "effective_vmin (arg_dfr args) vmin = Inr (im_vmin fig)"
    and "effective_vmax (arg_dfr args) vmax = Inr (im_vmax fig)"
    by auto
qed

theorem default_colour_scale_bounds_witness:
  "concat (vals ex_dfr) \<noteq> [] \<and>
   heatmap_mpl ex_lib ex_cfg ex_globals ex_args None None None None None =
     Inr (ex_mpl_fig, ex_globals, ex_args_after) \<and>
   Min (set (concat (vals ex_dfr))) = im_vmin ex_mpl_fig \<and>
   Max (set (concat (vals ex_dfr))) = im_vmax ex_mpl_fig \<and>
   im_vmin ex_mpl_fig = 0.5 \<and> im_vmax ex_mpl_fig = 1"
proof -
  have ne: "concat (vals ex_dfr) \<noteq> []" by (simp add: ex_dfr_def)
  have dfr: "arg_dfr ex_args = ex_dfr" by (simp add: ex_args_def)
  note th = default_colour_scale_bounds [of ex_dfr _ _ ex_lib ex_cfg ex_globals ex_args
      None None None None None ex_mpl_fig ex_globals ex_args_after]
  from th ne have a: "effective_vmin ex_dfr None = Inr (Min (set (concat (vals ex_dfr))))"
    and b: "effective_vmax ex_dfr None = Inr (Max (set (concat (vals ex_dfr))))" by blast+
  from th ex_mpl_call have c: "effective_vmin ex_dfr None = Inr (im_vmin ex_mpl_fig)"
    and d: "effective_vmax ex_dfr None = Inr (im_vmax ex_mpl_fig)" by (simp_all add: dfr)
  from a c have "Min (set (concat (vals ex_dfr))) = im_vmin ex_mpl_fig" by simp
  moreover from b d have "Max (set (concat (vals ex_dfr))) = im_vmax ex_mpl_fig" by simp
  moreover have "im_vmin ex_mpl_fig = 0.5 \<and> im_vmax ex_mpl_fig = 1" by (simp add: ex_mpl_fig_def)
  ultimately show ?thesis using ne ex_mpl_call by blast
qed

subsection \<open>Ticks of the colour bar\<close>

lemma round_half_even_near: "\<bar>of_int (round_half_even x) - x\<bar> \<le> 1 / 2"
proof -
  have "of_int \<lfloor>x\<rfloor> \<le> x" "x < of_int \<lfloor>x\<rfloor> + 1" by linarith+
  then show ?thesis
    by (auto simp: round_half_even_def Let_def)
qed

lemma py_round_multiple:
  "0 \<le> k \<Longrightarrow> py_round x (- k) = of_int (round_half_even (x / 10 ^ nat k)) * 10 ^ nat k"
  by (simp add: py_round_def)

lemma py_round_near:
  assumes "0 \<le> k"
  shows "\<bar>py_round x (- k) - x\<bar> \<le> 10 ^ nat k / 2"
proof -
  let ?p = "(10::real) ^ nat k"
  have p: "0 < ?p" by simp
  have "\<bar>of_int (round_half_even (x / ?p)) - x / ?p\<bar> \<le> 1 / 2"
    by (rule round_half_even_near)
  then have "\<bar>of_int (round_half_even (x / ?p)) - x / ?p\<bar> * ?p \<le> 1 / 2 * ?p"
    using p by (simp only: mult_le_cancel_right_pos)
  moreover have "\<bar>of_int (round_half_even (x / ?p)) - x / ?p\<bar> * ?p =
      \<bar>of_int (round_half_even (x / ?p)) * ?p - x\<bar>"
  proof -
    have "\<bar>of_int (round_half_even (x / ?p)) - x / ?p\<bar> * ?p =
        \<bar>(of_int (round_half_even (x / ?p)) - x / ?p) * ?p\<bar>"
      using p by (simp add: abs_mult)
    also have "(of_int (round_half_even (x / ?p)) - x / ?p) * ?p =
        of_int (round_half_even (x / ?p)) * ?p - x"
      using p by (simp add: left_diff_distrib)
    finally show ?thesis .
  qed
  ultimately show ?thesis using assms by (simp add: py_round_multiple)
qed






lemma tick_exponent_Inr: "10 < v \<Longrightarrow> tick_exponent v = Inr (\<lfloor>log 10 v\<rfloor> - 1)"
  by (simp add: tick_exponent_def py_log10_def)

lemma cbticks_total: "\<exists>ticks. cbticks vmin vmax = Inr ticks \<and> length ticks = 5"
  by (cases "10 < vmax") (simp_all add: cbticks_def tick_exponent_Inr quarter_points_def)




lemma length_quarter_points: "length (quarter_points vmin vmax) = 5"
  by (simp add: quarter_points_def)


lemma heatmap_mpl_ticks:
  assumes "heatmap_mpl lib cfg g args outfilename title cmap vmin vmax = Inr (fig, g', args')"
  shows "cbticks (im_vmin fig) (im_vmax fig) = Inr (cbar_ticks fig)"
  using heatmap_mpl_Inr [OF assms] by auto

text \<open>
  C4. When the maximum of the colour scale equals its minimum, the scale width is 0.01 and
  the tick computation returns five ticks without an error; up to 10 they are the quarter
  points of a range of width 0.01. A call of \<open>heatmap_mpl\<close> that returns with equal
  bounds has drawn the colour bar with exactly these ticks.
\<close>

theorem zero_width_range_ticks:
  "vdiff v v = 0.01 \<and>
   (\<exists>ticks. cbticks v v = Inr ticks \<and> length ticks = 5) \<and>
   (v \<le> 10 \<longrightarrow> cbticks v v = Inr [v, v + 0.0025, v + 0.005, v + 0.0075, v + 0.01]) \<and>
   (heatmap_mpl lib cfg g args outfilename title cmap vmin vmax = Inr (fig, g', args') \<and>
    im_vmax fig = im_vmin fig \<longrightarrow>
      cbticks (im_vmin fig) (im_vmin fig) = Inr (cbar_ticks fig) \<and> length (cbar_ticks fig) = 5)"
proof (intro conjI impI)
  show "vdiff v v = 0.01" by (simp add: vdiff_def)
  show "\<exists>ticks. cbticks v v = Inr ticks \<and> length ticks = 5" by (rule cbticks_total)
  {
    assume "v \<le> 10"
    then show "cbticks v v = Inr [v, v + 0.0025, v + 0.005, v + 0.0075, v + 0.01]"
      by (simp add: cbticks_def quarter_points_def vdiff_def)
  }
  assume call: "heatmap_mpl lib cfg g args outfilename title cmap vmin vmax = Inr (fig, g', args') \<and>
    im_vmax fig = im_vmin fig"
  with heatmap_mpl_ticks [of lib cfg g args outfilename title cmap vmin vmax fig g' args']
  show t: "cbticks (im_vmin fig) (im_vmin fig) = Inr (cbar_ticks fig)" by simp
  from cbticks_total [of "im_vmin fig" "im_vmin fig"] t
  show "length (cbar_ticks fig) = 5" by auto
qed

theorem zero_width_range_ticks_witness:
  "(1::real) \<le> 10 \<and> vdiff 1 1 = 0.01 \<and> cbticks 1 1 = Inr [1, 1.0025, 1.005, 1.0075, 1.01] \<and>
   heatmap_mpl ex_lib ex_cfg ex_globals ex_args None None None (Some 0.5) (Some 0.5) =
     Inr (ex_mpl_fig\<lparr>im_vmax := 0.5, cbar_ticks := [0.5, 0.5025, 0.505, 0.5075, 0.51]\<rparr>,
          ex_globals, ex_args_after) \<and>
   length (cbar_ticks (ex_mpl_fig\<lparr>im_vmax := 0.5,
     cbar_ticks := [0.5, 0.5025, 0.505, 0.5075, 0.51]\<rparr>)) = 5"
proof -
  have call: "heatmap_mpl ex_lib ex_cfg ex_globals ex_args None None None (Some 0.5) (Some 0.5) =
     Inr (ex_mpl_fig\<lparr>im_vmax := 0.5, cbar_ticks := [0.5, 0.5025, 0.505, 0.5075, 0.51]\<rparr>,
          ex_globals, ex_args_after)"
    by (simp add: heatmap_mpl_def ex_leaves ex_args_def ex_dfr_def ex_globals_def ex_cfg_def
      shape0_def effective_vmin_def effective_vmax_def
      cbticks_def quarter_points_def vdiff_def get_cmap_def mpl_figsize_def dfr_ix_def
      mpl_class_strips_def index_take_def classdict_def dict_of_pairs_def dict_values_def
      dict_get_def cb_entry_def cb_handler_def mpl_ticklabels_def labels_get_def truthy_def
      bind_err_def enumerate_eq_zip ex_mpl_fig_def ex_args_after_def)
  have eq: "im_vmax (ex_mpl_fig\<lparr>im_vmax := 0.5,
      cbar_ticks := [0.5, 0.5025, 0.505, 0.5075, 0.51]\<rparr>) =
    im_vmin (ex_mpl_fig\<lparr>im_vmax := 0.5, cbar_ticks := [0.5, 0.5025, 0.505, 0.5075, 0.51]\<rparr>)"
    by (simp add: ex_mpl_fig_def)
  from zero_width_range_ticks [of 1, THEN conjunct2, THEN conjunct2, THEN conjunct1]
  have a: "cbticks 1 1 = Inr [1, 1.0025, 1.005, 1.0075, 1.01]" by simp
  from zero_width_range_ticks [THEN conjunct2, THEN conjunct2, THEN conjunct2, rule_format,
      OF conjI, OF call eq]
  have b: "length (cbar_ticks (ex_mpl_fig\<lparr>im_vmax := 0.5,
     cbar_ticks := [0.5, 0.5025, 0.505, 0.5075, 0.51]\<rparr>)) = 5" by blast
  from zero_width_range_ticks [of 1] have c: "vdiff 1 1 = 0.01" by blast
  show ?thesis using a b c call by simp
qed






subsection \<open>Tick labels\<close>

lemma index_take_Inr:
  assumes "index_take idx leaves = Inr names"
  shows "names = map (\<lambda>i. idx ! i) leaves \<and> (\<forall>i \<in> set leaves. i < length idx)"
  using assms by (auto simp: index_take_def list_all_iff split: if_splits)

lemma dfr_ix_Inr:
  assumes "dfr_ix dfr rows cols = Inr shown"
  shows "shown = map (\<lambda>r. map (\<lambda>c. vals dfr ! r ! c) cols) rows \<and>
         (\<forall>r \<in> set rows. r < length (index dfr)) \<and> (\<forall>c \<in> set cols. c < length (columns dfr))"
  using assms by (auto simp: dfr_ix_def list_all_iff split: if_splits)

lemma map_spec_tick_label_None: "map (spec_tick_label None) xs = xs"
  by (induction xs) (simp_all add: spec_tick_label_def)

lemma map_spec_tick_label_empty: "map (spec_tick_label (Some [])) xs = xs"
  by (induction xs) (simp_all add: spec_tick_label_def dict_get_def)

lemma map_spec_tick_label_Some:
  "map (spec_tick_label (Some lab)) xs = map (labels_get lab) xs"
  by (induction xs) (simp_all add: spec_tick_label_def labels_get_def)

lemma seaborn_newlabels_spec:
  "seaborn_newlabels labels idx = map (spec_tick_label labels) idx"
  by (cases labels)
    (simp_all add: seaborn_newlabels_def map_spec_tick_label_None map_spec_tick_label_Some)

lemma mpl_ticklabels_spec:
  "mpl_ticklabels labels names = map (spec_tick_label labels) names"
proof (cases labels)
  case None
  then show ?thesis by (simp add: mpl_ticklabels_def map_spec_tick_label_None)
next
  case (Some lab)
  show ?thesis
  proof (cases "lab = []")
    case True
    with Some show ?thesis by (simp add: mpl_ticklabels_def map_spec_tick_label_empty)
  next
    case False
    with Some show ?thesis by (simp add: mpl_ticklabels_def map_spec_tick_label_Some)
  qed
qed

text \<open>
  C5. The tick label of an identifier is the identifier itself when no label map is
  given or the map has no entry for it, and the mapped string when it has one. A call of
  \<open>heatmap_seaborn\<close> that returns hands these labels, for the identifiers of the index
  in their order, to both axes; a call of \<open>heatmap_mpl\<close> that returns labels the columns
  and the rows with them, for the identifiers in the leaf order of the column and of the
  row dendrogram.
\<close>

theorem tick_labels:
  "spec_tick_label None ident = ident \<and>
   (dict_get lab ident = None \<longrightarrow> spec_tick_label (Some lab) ident = ident) \<and>
   (dict_get lab ident = Some l \<longrightarrow> spec_tick_label (Some lab) ident = l) \<and>
   (heatmap_seaborn lib g args outfilename title cmap vmin vmax = Inr (fig, g', args') \<longrightarrow>
      sb_xticklabels fig = map (spec_tick_label (arg_labels args)) (index (arg_dfr args)) \<and>
      sb_yticklabels fig = map (spec_tick_label (arg_labels args)) (index (arg_dfr args))) \<and>
   (heatmap_mpl lib cfg g2 args2 outfilename2 title2 cmap2 vmin2 vmax2 = Inr (fig2, g2', args2') \<longrightarrow>
      xticklabels fig2 =
        map (\<lambda>i. spec_tick_label (arg_labels args2) (index (arg_dfr args2) ! i))
          (col_leaves lib (arg_dfr args2)) \<and>
      yticklabels fig2 =
        map (\<lambda>i. spec_tick_label (arg_labels args2) (index (arg_dfr args2) ! i))
          (row_leaves lib (arg_dfr args2)) \<and>
      (\<forall>i \<in> set (col_leaves lib (arg_dfr args2)) \<union> set (row_leaves lib (arg_dfr args2)).
         i < length (index (arg_dfr args2))))"
proof (intro conjI impI)
  show "spec_tick_label None ident = ident" by (simp add: spec_tick_label_def)
  {
    assume "dict_get lab ident = None"
    then show "spec_tick_label (Some lab) ident = ident" by (simp add: spec_tick_label_def)
  }
  {
    assume "dict_get lab ident = Some l"
    then show "spec_tick_label (Some lab) ident = l" by (simp add: spec_tick_label_def)
  }
  {
    assume call: "heatmap_seaborn lib g args outfilename title cmap vmin vmax = Inr (fig, g', args')"
    from heatmap_seaborn_Inr [OF call]
    show "sb_xticklabels fig = map (spec_tick_label (arg_labels args)) (index (arg_dfr args))"
      and "sb_yticklabels fig = map (spec_tick_label (arg_labels args)) (index (arg_dfr args))"
      by (auto simp: seaborn_newlabels_spec)
  }
  assume call: "heatmap_mpl lib cfg g2 args2 outfilename2 title2 cmap2 vmin2 vmax2 = Inr (fig2, g2', args2')"
  from heatmap_mpl_Inr [OF call] obtain rowt colt where
    r: "index_take (index (arg_dfr args2)) (row_leaves lib (arg_dfr args2)) = Inr rowt" and
    c: "index_take (index (arg_dfr args2)) (col_leaves lib (arg_dfr args2)) = Inr colt" and
    x: "xticklabels fig2 = mpl_ticklabels (arg_labels args2) colt" and
    y: "yticklabels fig2 = mpl_ticklabels (arg_labels args2) rowt"
    by auto
  note r' = index_take_Inr [OF r] and c' = index_take_Inr [OF c]
  show "xticklabels fig2 =
        map (\<lambda>i. spec_tick_label (arg_labels args2) (index (arg_dfr args2) ! i))
          (col_leaves lib (arg_dfr args2))"
    using c' by (simp add: x mpl_ticklabels_spec o_def)
  show "yticklabels fig2 =
        map (\<lambda>i. spec_tick_label (arg_labels args2) (index (arg_dfr args2) ! i))
          (row_leaves lib (arg_dfr args2))"
    using r' by (simp add: y mpl_ticklabels_spec o_def)
  show "\<forall>i \<in> set (col_leaves lib (arg_dfr args2)) \<union> set (row_leaves lib (arg_dfr args2)).
         i < length (index (arg_dfr args2))"
    using r' c' by blast
qed

theorem tick_labels_witness:
  "dict_get [(''A'', ''Alpha'')] ''B'' = None \<and>
   dict_get [(''A'', ''Alpha'')] ''A'' = Some ''Alpha'' \<and>
   spec_tick_label (Some [(''A'', ''Alpha'')]) ''B'' = ''B'' \<and>
   spec_tick_label (Some [(''A'', ''Alpha'')]) ''A'' = ''Alpha'' \<and>
   heatmap_seaborn ex_lib ex_globals ex_args None None None None None =
     Inr (ex_seaborn_fig, ex_globals, ex_args) \<and>
   heatmap_mpl ex_lib ex_cfg ex_globals ex_args None None None None None =
     Inr (ex_mpl_fig, ex_globals, ex_args_after) \<and>
   sb_xticklabels ex_seaborn_fig = [''Alpha'', ''B''] \<and>
   xticklabels ex_mpl_fig = [''Alpha'', ''B''] \<and> yticklabels ex_mpl_fig = [''B'', ''Alpha'']"
proof -
  have n: "dict_get [(''A'', ''Alpha'')] ''B'' = None"
    and s: "dict_get [(''A'', ''Alpha'')] ''A'' = Some ''Alpha''"
    by (simp_all add: dict_get_def)
  from tick_labels [THEN conjunct2, THEN conjunct1, rule_format, OF n]
  have a: "spec_tick_label (Some [(''A'', ''Alpha'')]) ''B'' = ''B''" .
  from tick_labels [THEN conjunct2, THEN conjunct2, THEN conjunct1, rule_format, OF s]
  have b: "spec_tick_label (Some [(''A'', ''Alpha'')]) ''A'' = ''Alpha''" .
  from tick_labels [THEN conjunct2, THEN conjunct2, THEN conjunct2, THEN conjunct1,
      rule_format, OF ex_seaborn_call]
  have c: "sb_xticklabels ex_seaborn_fig =
      map (spec_tick_label (arg_labels ex_args)) (index (arg_dfr ex_args))" by blast
  from tick_labels [THEN conjunct2, THEN conjunct2, THEN conjunct2, THEN conjunct2,
      rule_format, OF ex_mpl_call]
  have d: "xticklabels ex_mpl_fig =
        map (\<lambda>i. spec_tick_label (arg_labels ex_args) (index (arg_dfr ex_args) ! i))
          (col_leaves ex_lib (arg_dfr ex_args))"
    and e: "yticklabels ex_mpl_fig =
        map (\<lambda>i. spec_tick_label (arg_labels ex_args) (index (arg_dfr ex_args) ! i))
          (row_leaves ex_lib (arg_dfr ex_args))" by blast+
  have lab: "arg_labels ex_args = Some [(''A'', ''Alpha'')]"
    and idx: "index (arg_dfr ex_args) = [''A'', ''B'']"
    by (simp_all add: ex_args_def ex_dfr_def)
  have a': "spec_tick_label (Some [(''A'', ''Alpha'')]) ''B'' = ''B''"
    and b': "spec_tick_label (Some [(''A'', ''Alpha'')]) ''A'' = ''Alpha''"
    using a b by simp_all
  show ?thesis
    using n s a b c d e ex_seaborn_call ex_mpl_call
    by (simp add: lab idx ex_leaves)
qed

subsection \<open>The matrix drawn by heatmap_mpl\<close>

lemma mset_map_nth_perm:
  assumes "mset js = mset [0..<length xs]"
  shows "mset (map (\<lambda>j. xs ! j) js) = mset xs"
proof -
  have "mset (map (\<lambda>j. xs ! j) js) = image_mset (\<lambda>j. xs ! j) (mset js)" by simp
  also have "\<dots> = image_mset (\<lambda>j. xs ! j) (mset [0..<length xs])" by (simp only: assms)
  also have "\<dots> = mset (map (\<lambda>j. xs ! j) [0..<length xs])" by simp
  also have "\<dots> = mset xs" by (simp only: map_nth)
  finally show ?thesis .
qed

text \<open>
  C9. The row leaf order is the dendrogram of the complete linkage of the pairwise distances
  between the rows of the matrix, the column leaf order the same for the rows of its
  transpose. A call of \<open>heatmap_mpl\<close> that returns has drawn the matrix whose entry
  \<open>(i, j)\<close> is the input's entry at the \<open>i\<close>-th row leaf and the \<open>j\<close>-th column
  leaf. When the column leaves are a permutation of the positions of a row, the row drawn
  has the entries of the input row; when the row leaves are a permutation of the row
  positions (and the columns are kept in place), the rows drawn are the input's rows.
\<close>

theorem heatmap_reordered:
  "row_leaves lib dfr =
     dendrogram lib (linkage lib (squareform lib (pdist lib (vals dfr))) ''complete'') ''left'' \<and>
   col_leaves lib dfr =
     dendrogram lib
       (linkage lib (squareform lib (pdist lib (transpose (vals dfr)))) ''complete'') ''top'' \<and>
   (heatmap_mpl lib cfg g args outfilename title cmap vmin vmax = Inr (fig, g', args') \<longrightarrow>
      heatmap_data fig =
        map (\<lambda>r. map (\<lambda>c. vals (arg_dfr args) ! r ! c) (col_leaves lib (arg_dfr args)))
          (row_leaves lib (arg_dfr args)) \<and>
      length (heatmap_data fig) = length (row_leaves lib (arg_dfr args)) \<and>
      (\<forall>i j. i < length (row_leaves lib (arg_dfr args)) \<and>
             j < length (col_leaves lib (arg_dfr args)) \<longrightarrow>
         row_leaves lib (arg_dfr args) ! i < length (index (arg_dfr args)) \<and>
         col_leaves lib (arg_dfr args) ! j < length (columns (arg_dfr args)) \<and>
         heatmap_data fig ! i ! j =
           vals (arg_dfr args) ! (row_leaves lib (arg_dfr args) ! i)
             ! (col_leaves lib (arg_dfr args) ! j)) \<and>
      (\<forall>i. i < length (row_leaves lib (arg_dfr args)) \<and>
           mset (col_leaves lib (arg_dfr args)) =
             mset [0..<length (vals (arg_dfr args) ! (row_leaves lib (arg_dfr args) ! i))] \<longrightarrow>
         mset (heatmap_data fig ! i) =
           mset (vals (arg_dfr args) ! (row_leaves lib (arg_dfr args) ! i))) \<and>
      (mset (row_leaves lib (arg_dfr args)) = mset [0..<length (vals (arg_dfr args))] \<and>
       col_leaves lib (arg_dfr args) = [0..<length (columns (arg_dfr args))] \<and>
       (\<forall>row \<in> set (vals (arg_dfr args)). length row = length (columns (arg_dfr args))) \<longrightarrow>
         mset (heatmap_data fig) = mset (vals (arg_dfr args))))"
proof (intro conjI impI allI)
  show "row_leaves lib dfr =
     dendrogram lib (linkage lib (squareform lib (pdist lib (vals dfr))) ''complete'') ''left''"
    by (simp add: row_leaves_def)
  show "col_leaves lib dfr =
     dendrogram lib
       (linkage lib (squareform lib (pdist lib (transpose (vals dfr)))) ''complete'') ''top''"
    by (simp add: col_leaves_def dfr_T_def)
next
  assume call: "heatmap_mpl lib cfg g args outfilename title cmap vmin vmax = Inr (fig, g', args')"
  let ?d = "arg_dfr args"
  let ?rl = "row_leaves lib ?d" and ?cl = "col_leaves lib ?d"
  from heatmap_mpl_Inr [OF call] have "dfr_ix ?d ?rl ?cl = Inr (heatmap_data fig)" by auto
  note ix = dfr_ix_Inr [OF this]
  show data: "heatmap_data fig = map (\<lambda>r. map (\<lambda>c. vals ?d ! r ! c) ?cl) ?rl"
    using ix by blast
  show "length (heatmap_data fig) = length ?rl" by (simp add: data)
  {
    fix i j
    assume ij: "i < length ?rl \<and> j < length ?cl"
    show "?rl ! i < length (index ?d)" using ix ij by simp
    show "?cl ! j < length (columns ?d)" using ix ij by simp
    show "heatmap_data fig ! i ! j = vals ?d ! (?rl ! i) ! (?cl ! j)"
      using ij by (simp add: data)
  }
  {
    fix i
    assume h: "i < length ?rl \<and> mset ?cl = mset [0..<length (vals ?d ! (?rl ! i))]"
    then have "heatmap_data fig ! i = map (\<lambda>c. vals ?d ! (?rl ! i) ! c) ?cl"
      by (simp add: data)
    with h show "mset (heatmap_data fig ! i) = mset (vals ?d ! (?rl ! i))"
      using mset_map_nth_perm [of ?cl "vals ?d ! (?rl ! i)"] by simp
  }
  {
    assume h: "mset ?rl = mset [0..<length (vals ?d)] \<and>
       ?cl = [0..<length (columns ?d)] \<and>
       (\<forall>row \<in> set (vals ?d). length row = length (columns ?d))"
    have rows: "map (\<lambda>c. vals ?d ! r ! c) ?cl = vals ?d ! r" if "r \<in> set ?rl" for r
    proof -
      from that h have "r \<in># mset [0..<length (vals ?d)]" by (metis set_mset_mset)
      then have "r < length (vals ?d)" by simp
      then have "length (vals ?d ! r) = length (columns ?d)" using h by simp
      then show ?thesis using h map_nth [of "vals ?d ! r"] by simp
    qed
    have "heatmap_data fig = map (\<lambda>r. vals ?d ! r) ?rl"
      unfolding data by (rule map_cong) (simp_all add: rows)
    then show "mset (heatmap_data fig) = mset (vals ?d)"
      using h mset_map_nth_perm [of ?rl "vals ?d"] by simp
  }
qed

theorem heatmap_reordered_witness:
  "heatmap_mpl ex_lib ex_cfg ex_globals ex_args None None None None None =
     Inr (ex_mpl_fig, ex_globals, ex_args_after) \<and>
   row_leaves ex_lib (arg_dfr ex_args) = [1, 0] \<and> col_leaves ex_lib (arg_dfr ex_args) = [0, 1] \<and>
   vals (arg_dfr ex_args) = [[1, 0.5], [0.5, 1]] \<and>
   heatmap_data ex_mpl_fig = [[0.5, 1], [1, 0.5]] \<and>
   mset (heatmap_data ex_mpl_fig) = mset (vals (arg_dfr ex_args)) \<and>
   mset (heatmap_data ex_mpl_fig ! 0) = mset (vals (arg_dfr ex_args) ! 1)"
proof -
  note th = heatmap_reordered [THEN conjunct2, THEN conjunct2, rule_format, OF ex_mpl_call]
  have rl: "row_leaves ex_lib (arg_dfr ex_args) = [1, 0]"
    and cl: "col_leaves ex_lib (arg_dfr ex_args) = [0, 1]" by (simp_all add: ex_leaves)
  have v: "vals (arg_dfr ex_args) = [[1, 0.5], [0.5, 1]]"
    and c: "columns (arg_dfr ex_args) = [''A'', ''B'']"
    by (simp_all add: ex_args_def ex_dfr_def)
  have up: "[0..<2] = [0, 1]" by (simp add: upt_rec)
  from th have d: "heatmap_data ex_mpl_fig =
      map (\<lambda>r. map (\<lambda>c. vals (arg_dfr ex_args) ! r ! c) (col_leaves ex_lib (arg_dfr ex_args)))
          (row_leaves ex_lib (arg_dfr ex_args))" by blast
  have h1: "mset (row_leaves ex_lib (arg_dfr ex_args)) = mset [0..<length (vals (arg_dfr ex_args))] \<and>
       col_leaves ex_lib (arg_dfr ex_args) = [0..<length (columns (arg_dfr ex_args))] \<and>
       (\<forall>row \<in> set (vals (arg_dfr ex_args)). length row = length (columns (arg_dfr ex_args)))"
    by (simp add: rl cl v c up)
  from th h1 have m: "mset (heatmap_data ex_mpl_fig) = mset (vals (arg_dfr ex_args))" by blast
  have h2: "0 < length (row_leaves ex_lib (arg_dfr ex_args)) \<and>
           mset (col_leaves ex_lib (arg_dfr ex_args)) =
             mset [0..<length (vals (arg_dfr ex_args) ! (row_leaves ex_lib (arg_dfr ex_args) ! 0))]"
    by (simp add: rl cl v up)
  from th h2 have "mset (heatmap_data ex_mpl_fig ! 0) =
      mset (vals (arg_dfr ex_args) ! (row_leaves ex_lib (arg_dfr ex_args) ! 0))" by blast
  then have m0: "mset (heatmap_data ex_mpl_fig ! 0) = mset (vals (arg_dfr ex_args) ! 1)"
    by (simp add: rl)
  have e: "heatmap_data ex_mpl_fig = [[0.5, 1], [1, 0.5]]" using d by (simp add: rl cl v)
  show ?thesis using ex_mpl_call rl cl v e m m0 by blast
qed

subsection \<open>The caller's arguments after a call\<close>


lemma dict_set_append: "k \<notin> fst ` set d \<Longrightarrow> dict_set d k v = d @ [(k, v)]"
  by (induction d) auto







subsection \<open>Global state of the plotting libraries after a call\<close>





subsection \<open>Class colours by sort order\<close>

lemma foldl_dict_set_distinct:
  "distinct (map fst (acc @ ps)) \<Longrightarrow> foldl (\<lambda>d (k, v). dict_set d k v) acc ps = acc @ ps"
proof (induction ps arbitrary: acc)
  case Nil
  show ?case by simp
next
  case (Cons p ps)
  obtain k v where p: "p = (k, v)" by (cases p)
  from Cons.prems have "k \<notin> fst ` set acc" by (auto simp: p)
  then have step: "dict_set acc k v = acc @ [(k, v)]" by (rule dict_set_append)
  from Cons.prems have "distinct (map fst ((acc @ [(k, v)]) @ ps))" by (simp add: p)
  from Cons.IH [OF this] show ?case by (simp add: p step)
qed

lemma dict_of_pairs_distinct: "distinct (map fst ps) \<Longrightarrow> dict_of_pairs ps = ps"
  using foldl_dict_set_distinct [of "[]" ps] by (simp add: dict_of_pairs_def)

lemma levels_props:
  "sorted (levels classes) \<and> distinct (levels classes) \<and>
   set (levels classes) = set (dict_values classes)"
  by (simp add: levels_def)

lemma distinct_fst_zip: "distinct xs \<Longrightarrow> distinct (map fst (zip xs ys))"
  by (simp add: map_fst_zip_take)

lemma paldict_zip:
  "paldict lib classes =
     zip (levels classes) (cubehelix_palette lib (length (levels classes)))"
  using levels_props [of classes]
  by (simp add: paldict_def dict_of_pairs_distinct distinct_fst_zip)

subsection \<open>Class colour strips\<close>











lemma lvl_pal_pairs_Inr:
  "lvl_pal_pairs pd items = Inr ps \<Longrightarrow>
   map fst ps = map fst items \<and>
   map_of ps k = (case map_of items k of None \<Rightarrow> None | Some c \<Rightarrow> dict_get pd c) \<and>
   (\<forall>c \<in> snd ` set items. dict_get pd c \<noteq> None)"
proof (induction items arbitrary: ps)
  case Nil
  then show ?case by simp
next
  case (Cons it items)
  obtain cls lvl where it: "it = (cls, lvl)" by (cases it)
  from Cons.prems obtain col ps' where col: "dict_get pd lvl = Some col"
    and r: "lvl_pal_pairs pd items = Inr ps'" and ps: "ps = (cls, col) # ps'"
    by (auto simp: it split: option.splits sum.splits)
  from Cons.IH [OF r] have ih1: "map fst ps' = map fst items"
    and ih2: "map_of ps' k = (case map_of items k of None \<Rightarrow> None | Some c \<Rightarrow> dict_get pd c)"
    and ih3: "\<forall>c \<in> snd ` set items. dict_get pd c \<noteq> None" by blast+
  have "map fst ps = map fst (it # items)" by (simp add: it ps ih1)
  moreover have "map_of ps k =
      (case map_of (it # items) k of None \<Rightarrow> None | Some c \<Rightarrow> dict_get pd c)"
    by (simp add: it ps ih2 col)
  moreover have "\<forall>c \<in> snd ` set (it # items). dict_get pd c \<noteq> None"
  proof
    fix c
    assume "c \<in> snd ` set (it # items)"
    then have "c = lvl \<or> c \<in> snd ` set items" by (auto simp: it)
    then show "dict_get pd c \<noteq> None"
    proof
      assume "c = lvl"
      with col show ?thesis by simp
    next
      assume "c \<in> snd ` set items"
      with ih3 show ?thesis by blast
    qed
  qed
  ultimately show ?case by blast
qed


lemma seaborn_col_cb_Some:
  assumes "seaborn_col_cb lib (Some cl) idx = Inr cb" and "distinct (map fst cl)"
  shows "cb = Some (map (\<lambda>ident. case dict_get cl ident of None \<Rightarrow> None
                                   | Some c \<Rightarrow> dict_get (paldict lib cl) c) idx) \<and>
         (\<forall>c \<in> set (dict_values cl). dict_get (paldict lib cl) c \<noteq> None)"
proof -
  from assms(1) obtain lp where lp: "lvl_pal lib cl = Inr lp"
    and cb: "cb = Some (map (dict_get lp) idx)"
    by (auto simp: seaborn_col_cb_def split: sum.splits)
  from lp obtain ps where ps: "lvl_pal_pairs (paldict lib cl) cl = Inr ps"
    and lp': "lp = dict_of_pairs ps"
    by (auto simp: lvl_pal_def split: sum.splits)
  have keys: "map fst ps = map fst cl"
    using lvl_pal_pairs_Inr [OF ps] by blast
  have look: "map_of ps k =
      (case map_of cl k of None \<Rightarrow> None | Some c \<Rightarrow> dict_get (paldict lib cl) c)" for k
    using lvl_pal_pairs_Inr [OF ps, of k] by blast
  have all: "\<forall>c \<in> snd ` set cl. dict_get (paldict lib cl) c \<noteq> None"
    using lvl_pal_pairs_Inr [OF ps] by blast
  have "lp = ps" using keys assms(2) by (simp add: lp' dict_of_pairs_distinct)
  then have "dict_get lp = (\<lambda>ident. case dict_get cl ident of None \<Rightarrow> None
                                   | Some c \<Rightarrow> dict_get (paldict lib cl) c)"
    by (simp add: fun_eq_iff dict_get_def look)
  with cb all show ?thesis by (simp add: dict_values_def)
qed




subsection \<open>The palette of heatmap_seaborn\<close>

text \<open>
  C7. In \<open>heatmap_seaborn\<close> the levels are the distinct category values of the class
  map in sorted order, and the dict of colours pairs the levels, in that order, with the
  colours of the palette of that many colours: the \<open>i\<close>-th level in sort order gets the
  \<open>i\<close>-th colour. Two class maps with the same set of category values get the same
  levels and the same dict of colours. A call that returns colours every identifier that
  has a category with the colour of that category in this dict, in both strips.
\<close>

theorem class_palette_by_sort_order:
  "levels classes = sorted_list_of_set (set (dict_values classes)) \<and>
   sorted (levels classes) \<and> distinct (levels classes) \<and>
   set (levels classes) = set (dict_values classes) \<and>
   paldict lib classes =
     zip (levels classes) (cubehelix_palette lib (length (levels classes))) \<and>
   (set (dict_values c1) = set (dict_values c2) \<longrightarrow>
      levels c1 = levels c2 \<and> paldict lib c1 = paldict lib c2) \<and>
   (length (cubehelix_palette lib (length (levels classes))) = length (levels classes) \<longrightarrow>
      (\<forall>i. i < length (levels classes) \<longrightarrow>
         dict_get (paldict lib classes) (levels classes ! i) =
           Some (cubehelix_palette lib (length (levels classes)) ! i))) \<and>
   (heatmap_seaborn lib g args outfilename title cmap vmin vmax = Inr (fig, g', args') \<and>
    arg_classes args = Some cl \<and> distinct (map fst cl) \<longrightarrow>
      sb_col_colors fig =
        Some (map (\<lambda>ident. case dict_get cl ident of None \<Rightarrow> None
                            | Some c \<Rightarrow> dict_get (paldict lib cl) c)
                (index (arg_dfr args))) \<and>
      sb_row_colors fig = sb_col_colors fig)"
proof (intro conjI impI allI)
  show "levels classes = sorted_list_of_set (set (dict_values classes))"
    by (simp add: levels_def)
  show "sorted (levels classes)" "distinct (levels classes)"
    "set (levels classes) = set (dict_values classes)"
    using levels_props [of classes] by blast+
  show "paldict lib classes =
     zip (levels classes) (cubehelix_palette lib (length (levels classes)))"
    by (rule paldict_zip)
next
  assume same: "set (dict_values c1) = set (dict_values c2)"
  then show l: "levels c1 = levels c2" by (simp add: levels_def)
  then show "paldict lib c1 = paldict lib c2" by (simp add: paldict_def)
next
  fix i
  assume len: "length (cubehelix_palette lib (length (levels classes))) = length (levels classes)"
    and i: "i < length (levels classes)"
  have "map_of (zip (levels classes) (cubehelix_palette lib (length (levels classes))))
      (levels classes ! i) = Some (cubehelix_palette lib (length (levels classes)) ! i)"
    using levels_props [of classes] len i by (intro map_of_zip_nth) simp_all
  then show "dict_get (paldict lib classes) (levels classes ! i) =
           Some (cubehelix_palette lib (length (levels classes)) ! i)"
    by (simp add: paldict_zip dict_get_def)
next
  assume h: "heatmap_seaborn lib g args outfilename title cmap vmin vmax = Inr (fig, g', args') \<and>
    arg_classes args = Some cl \<and> distinct (map fst cl)"
  then have call: "heatmap_seaborn lib g args outfilename title cmap vmin vmax = Inr (fig, g', args')"
    and cl: "arg_classes args = Some cl" and d: "distinct (map fst cl)" by blast+
  from heatmap_seaborn_Inr [OF call] obtain cb where
    cb: "seaborn_col_cb lib (arg_classes args) (index (arg_dfr args)) = Inr cb"
    and col: "sb_col_colors fig = cb" and row: "sb_row_colors fig = cb" by auto
  from cb have "seaborn_col_cb lib (Some cl) (index (arg_dfr args)) = Inr cb" by (simp only: cl)
  from seaborn_col_cb_Some [OF this d]
  show "sb_col_colors fig =
        Some (map (\<lambda>ident. case dict_get cl ident of None \<Rightarrow> None
                            | Some c \<Rightarrow> dict_get (paldict lib cl) c)
                (index (arg_dfr args)))"
    by (simp only: col)
  show "sb_row_colors fig = sb_col_colors fig" by (simp add: col row)
qed

lemma ex_levels: "levels [(''A'', ''y''), (''B'', ''x''), (''C'', ''y'')] = [''x'', ''y'']"
  by code_simp

lemma ex_levels2: "levels [(''P'', ''x''), (''Q'', ''y'')] = [''x'', ''y'']"
  by code_simp

theorem class_palette_by_sort_order_witness:
  "set (dict_values [(''A'', ''y''), (''B'', ''x''), (''C'', ''y'')]) =
     set (dict_values [(''P'', ''x''), (''Q'', ''y'')]) \<and>
   levels [(''A'', ''y''), (''B'', ''x''), (''C'', ''y'')] = [''x'', ''y''] \<and>
   paldict ex_lib [(''A'', ''y''), (''B'', ''x''), (''C'', ''y'')] =
     paldict ex_lib [(''P'', ''x''), (''Q'', ''y'')] \<and>
   paldict ex_lib [(''A'', ''y''), (''B'', ''x''), (''C'', ''y'')] =
     [(''x'', (0, 0, 0)), (''y'', (1, 0, 0))] \<and>
   dict_get (paldict ex_lib [(''A'', ''y''), (''B'', ''x''), (''C'', ''y'')]) ''y'' =
     Some (1, 0, 0) \<and>
   heatmap_seaborn ex_lib ex_globals ex_args None None None None None =
     Inr (ex_seaborn_fig, ex_globals, ex_args) \<and>
   arg_classes ex_args = Some [(''A'', ''x'')] \<and> distinct (map fst [(''A'', ''x'')]) \<and>
   sb_col_colors ex_seaborn_fig =
     Some (map (\<lambda>ident. case dict_get [(''A'', ''x'')] ident of None \<Rightarrow> None
                        | Some c \<Rightarrow> dict_get (paldict ex_lib [(''A'', ''x'')]) c)
             (index (arg_dfr ex_args)))"
proof -
  let ?c = "[(''A'', ''y''), (''B'', ''x''), (''C'', ''y'')]"
  note th = class_palette_by_sort_order [of ?c ex_lib ?c "[(''P'', ''x''), (''Q'', ''y'')]"]
  have same: "set (dict_values ?c) = set (dict_values [(''P'', ''x''), (''Q'', ''y'')])"
    by (auto simp: dict_values_def)
  have pal: "cubehelix_palette ex_lib (Suc (Suc 0)) = [(0, 0, 0), (1, 0, 0)]"
    by (simp add: ex_lib_def upt_rec)
  have len: "length (cubehelix_palette ex_lib (length (levels ?c))) = length (levels ?c)"
    by (simp add: ex_levels pal)
  from th same have eq: "paldict ex_lib ?c = paldict ex_lib [(''P'', ''x''), (''Q'', ''y'')]"
    by blast
  from th have z: "paldict ex_lib ?c =
      zip (levels ?c) (cubehelix_palette ex_lib (length (levels ?c)))" by blast
  then have v: "paldict ex_lib ?c = [(''x'', (0, 0, 0)), (''y'', (1, 0, 0))]"
    by (simp add: ex_levels pal)
  have i: "(1::nat) < length (levels ?c)" by (simp add: ex_levels)
  from th len i have "dict_get (paldict ex_lib ?c) (levels ?c ! 1) =
      Some (cubehelix_palette ex_lib (length (levels ?c)) ! 1)" by blast
  then have g: "dict_get (paldict ex_lib ?c) ''y'' = Some (1, 0, 0)"
    by (simp add: ex_levels pal)
  have cl: "arg_classes ex_args = Some [(''A'', ''x'')]" by (simp add: ex_args_def)
  have d: "distinct (map fst [(''A'', ''x'')])" by simp
  note call = class_palette_by_sort_order [THEN conjunct2, THEN conjunct2, THEN conjunct2,
      THEN conjunct2, THEN conjunct2, THEN conjunct2, THEN conjunct2, rule_format,
      OF conjI, OF ex_seaborn_call conjI, OF cl d]
  have strip: "sb_col_colors ex_seaborn_fig =
     Some (map (\<lambda>ident. case dict_get [(''A'', ''x'')] ident of None \<Rightarrow> None
                        | Some c \<Rightarrow> dict_get (paldict ex_lib [(''A'', ''x'')]) c)
             (index (arg_dfr ex_args)))"
    by (rule call [THEN conjunct1])
  show ?thesis
    by (intro conjI) (rule same ex_levels eq v g ex_seaborn_call cl d strip)+
qed

end
